theory Spec2Isabelle
  imports Main
begin

section \<open>The hospital appointment application (app.py)\<close>

text \<open>
  The application is a set of Flask routes over three tables and an upload directory.
  The model keeps the tables as lists of rows in insertion order, the upload directory
  as a map from path to file content, and writes every route as a function from the
  request and the stored state to a response and the new state. The caller is the user
  id held by the session cookie (\<open>None\<close> for a request without a session); role,
  status and action values are the strings the source compares.
\<close>

subsection \<open>Tables\<close>

text \<open>Class \<open>User\<close>; the column \<open>id\<close> is named \<open>user_id\<close> here.\<close>

record user =
  user_id :: int
  username :: string
  password :: string
  role :: string

text \<open>
  The route that books an appointment hands the text of a form field to the integer
  column \<open>doctor_id\<close>, and the storage engine decides what the column keeps: an
  integer, a floating-point number or the text. \<open>Real_of t\<close> stands for the
  floating-point number nearest to the number that the text \<open>t\<close> writes.
\<close>

datatype sqlite_value = Integer int | Real_of string | Text string

text \<open>A decimal integer literal: digits, with a minus sign before them or not.\<close>

definition is_digit :: "char \<Rightarrow> bool" where
  "is_digit c \<longleftrightarrow> (48::nat) \<le> of_char c \<and> of_char c \<le> (57::nat)"

definition decimal :: "string \<Rightarrow> nat" where
  "decimal ds = foldl (\<lambda>v c. 10 * v + (of_char c - 48)) 0 ds"

definition unsigned_literal :: "string \<Rightarrow> nat option" where
  "unsigned_literal ds = (if ds \<noteq> [] \<and> list_all is_digit ds then Some (decimal ds) else None)"

definition int_literal :: "string \<Rightarrow> int option" where
  "int_literal t =
     (case t of
        [] \<Rightarrow> None
      | c # ds \<Rightarrow>
          if c = CHR ''-'' then map_option (\<lambda>v. - int v) (unsigned_literal ds)
          else map_option int (unsigned_literal t))"

text \<open>
  What an integer column keeps for a text. An integer literal within the 64-bit range
  is kept as that integer, an integer literal out of the range as a floating-point
  number. What the engine makes of any other text (a literal with a fraction or an
  exponent, blanks around a number, text that is no number) is its own business and a
  parameter here.
\<close>

definition integer_affinity :: "(string \<Rightarrow> sqlite_value) \<Rightarrow> string \<Rightarrow> sqlite_value" where
  "integer_affinity other t =
     (case int_literal t of
        Some n \<Rightarrow> if - (2 ^ 63) \<le> n \<and> n < 2 ^ 63 then Integer n else Real_of t
      | None \<Rightarrow> other t)"

text \<open>Class \<open>Appointment\<close>; the column \<open>id\<close> is named \<open>appt_id\<close>.\<close>

record appointment =
  appt_id :: int
  patient_id :: int
  doctor_id :: sqlite_value
  time :: string
  status :: string

text \<open>Class \<open>Prescription\<close>; the column \<open>id\<close> is named \<open>presc_id\<close>.\<close>

record prescription =
  presc_id :: int
  appointment_id :: int
  file_url :: string

record state =
  users :: "user list"
  appointments :: "appointment list"
  prescriptions :: "prescription list"
  uploads :: "string \<rightharpoonup> string"

text \<open>
  An integer primary key left out of an insert is one more than the largest key of the
  table, and 1 in an empty table.
\<close>

definition next_id :: "int list \<Rightarrow> int" where
  "next_id ks = (case ks of [] \<Rightarrow> 1 | k # ks' \<Rightarrow> fold max ks' k + 1)"

subsection \<open>Requests and responses\<close>

datatype http_method = GET | POST

text \<open>
  A form is read with \<open>request.form[key]\<close>, which fails with a bad request when the key
  is missing: a missing field is \<open>None\<close>.
\<close>

record credentials_form =
  form_username :: "string option"
  form_password :: "string option"

record booking_form =
  form_doctor_id :: "string option"
  form_time :: "string option"

text \<open>An uploaded file part: the name sent by the client and the bytes.\<close>

record file_storage =
  filename :: string
  content :: string

datatype page =
  Redirect string
| Render string
| Render_view_history "appointment list" "prescription list"
| Render_upload_prescription appointment
| Not_found
| Bad_request
| Server_error

record response =
  page :: page
  flashed :: "(string \<times> string) list"

definition redirect :: "string \<Rightarrow> response" where
  "redirect endpoint = \<lparr>page = Redirect endpoint, flashed = []\<rparr>"

definition render_template :: "string \<Rightarrow> response" where
  "render_template name = \<lparr>page = Render name, flashed = []\<rparr>"

definition flash :: "string \<Rightarrow> string \<Rightarrow> response \<Rightarrow> response" where
  "flash message category r = r\<lparr>flashed := (message, category) # flashed r\<rparr>"

definition abort :: "page \<Rightarrow> response" where
  "abort p = \<lparr>page = p, flashed = []\<rparr>"

text \<open>The two denials every guarded route shares.\<close>

definition access_denied :: response where
  "access_denied = flash ''Access denied'' ''danger'' (redirect ''index'')"

text \<open>
  \<open>login_required\<close> with \<open>login_view = 'login'\<close>: a request without an authenticated
  user is sent to the login page.
\<close>

definition unauthorized :: response where
  "unauthorized = flash ''Please log in to access this page.'' ''message'' (redirect ''login'')"

subsection \<open>Password hashing\<close>

text \<open>
  \<open>werkzeug.security\<close> is a library outside the repository: its two functions are a
  parameter of the routes that call them. \<open>generate_password_hash\<close> draws a random salt,
  which is an argument here.
\<close>

record security =
  generate_password_hash :: "string \<Rightarrow> string \<Rightarrow> string"
  check_password_hash :: "string \<Rightarrow> string \<Rightarrow> bool"

subsection \<open>Queries\<close>

text \<open>\<open>load_user\<close>: the user the session names, if the row exists.\<close>

definition load_user :: "state \<Rightarrow> int \<Rightarrow> user option" where
  "load_user s i = find (\<lambda>u. user_id u = i) (users s)"

definition current_user :: "state \<Rightarrow> int option \<Rightarrow> user option" where
  "current_user s sess = (case sess of None \<Rightarrow> None | Some i \<Rightarrow> load_user s i)"

text \<open>The row of the appointment table with a given key.\<close>

definition get_appointment :: "state \<Rightarrow> int \<Rightarrow> appointment option" where
  "get_appointment s i = find (\<lambda>a. appt_id a = i) (appointments s)"

text \<open>
  \<open>Appointment.query.get_or_404\<close> on the id of the route, an \<open>int\<close> path segment:
  digits, as many as the caller likes. Keys are 64-bit integers, so an id from
  \<open>2 ^ 63\<close> on is the key of no row; the database driver cannot bind it as a query
  parameter and raises, which ends the request with a server error instead of the 404.
\<close>

definition get_or_404 :: "state \<Rightarrow> nat \<Rightarrow> page + appointment" where
  "get_or_404 s i =
     (case get_appointment s (int i) of
        Some a \<Rightarrow> Inr a
      | None \<Rightarrow> if 2 ^ 63 \<le> int i then Inl Server_error else Inl Not_found)"

text \<open>
  Adding a user row: the unique constraint on \<open>username\<close> refuses a name that is
  already stored, and the commit raises.
\<close>

datatype db_error = IntegrityError

definition add_user :: "string \<Rightarrow> string \<Rightarrow> string \<Rightarrow> state \<Rightarrow> db_error + state" where
  "add_user name hashed r s =
     (if \<exists>u \<in> set (users s). username u = name then Inl IntegrityError
      else Inr (s\<lparr>users := users s @
             [\<lparr>user_id = next_id (map user_id (users s)), username = name,
               password = hashed, role = r\<rparr>]\<rparr>))"

subsection \<open>Start-up: the default admin\<close>

definition seed :: "security \<Rightarrow> string \<Rightarrow> state \<Rightarrow> db_error + state" where
  "seed W salt s =
     (case find (\<lambda>u. role u = ''admin'') (users s) of
        None \<Rightarrow> add_user ''admin'' (generate_password_hash W salt ''admin123'') ''admin'' s
      | Some _ \<Rightarrow> Inr s)"

subsection \<open>Registration and login\<close>

definition register :: "security \<Rightarrow> string \<Rightarrow> http_method \<Rightarrow> credentials_form \<Rightarrow> state
    \<Rightarrow> response \<times> state" where
  "register W salt m form s =
     (if m = POST then
        (case form_username form of
           None \<Rightarrow> (abort Bad_request, s)
         | Some name \<Rightarrow>
            (case form_password form of
               None \<Rightarrow> (abort Bad_request, s)
             | Some pw \<Rightarrow>
                (case add_user name (generate_password_hash W salt pw) ''patient'' s of
                   Inl _ \<Rightarrow> (abort Server_error, s)
                 | Inr s' \<Rightarrow>
                    (flash ''Patient registered successfully!'' ''success'' (redirect ''login''),
                     s'))))
      else (render_template ''register_patient.html'', s))"

text \<open>
  Login reads the tables and writes only the session: the result is the response and the
  session after the request.
\<close>

definition login :: "security \<Rightarrow> http_method \<Rightarrow> credentials_form \<Rightarrow> int option \<Rightarrow> state
    \<Rightarrow> response \<times> int option" where
  "login W m form sess s =
     (if m = POST then
        (case form_username form of
           None \<Rightarrow> (abort Bad_request, sess)
         | Some name \<Rightarrow>
            (case form_password form of
               None \<Rightarrow> (abort Bad_request, sess)
             | Some pw \<Rightarrow>
                (case find (\<lambda>u. username u = name) (users s) of
                   None \<Rightarrow>
                     (flash ''Invalid credentials'' ''danger'' (render_template ''login.html''),
                      sess)
                 | Some u \<Rightarrow>
                     if check_password_hash W (password u) pw then
                       (if role u = ''patient'' then (redirect ''patient_dashboard'', Some (user_id u))
                        else if role u = ''doctor'' then
                          (redirect ''doctor_dashboard'', Some (user_id u))
                        else if role u = ''admin'' then
                          (redirect ''admin_dashboard'', Some (user_id u))
                        else (render_template ''login.html'', Some (user_id u)))
                     else
                       (flash ''Invalid credentials'' ''danger'' (render_template ''login.html''),
                        sess))))
      else (render_template ''login.html'', sess))"

subsection \<open>Patient routes\<close>

text \<open>
  The doctor id of the form reaches the row as the integer column keeps it; \<open>other\<close>
  is the engine's treatment of texts that are no integer literal.
\<close>

definition book_appointment ::
    "(string \<Rightarrow> sqlite_value) \<Rightarrow> int option \<Rightarrow> booking_form \<Rightarrow> state \<Rightarrow> response \<times> state" where
  "book_appointment other sess form s =
     (case current_user s sess of
        None \<Rightarrow> (unauthorized, s)
      | Some cu \<Rightarrow>
         (case form_doctor_id form of
            None \<Rightarrow> (abort Bad_request, s)
          | Some d \<Rightarrow>
             (case form_time form of
                None \<Rightarrow> (abort Bad_request, s)
              | Some t \<Rightarrow>
                 (flash ''Appointment booked!'' ''success'' (redirect ''patient_dashboard''),
                  s\<lparr>appointments := appointments s @
                     [\<lparr>appt_id = next_id (map appt_id (appointments s)),
                       patient_id = user_id cu, doctor_id = integer_affinity other d,
                       time = t, status = ''pending''\<rparr>]\<rparr>))))"

definition view_history :: "int option \<Rightarrow> state \<Rightarrow> response" where
  "view_history sess s =
     (case current_user s sess of
        None \<Rightarrow> unauthorized
      | Some cu \<Rightarrow>
         if role cu \<noteq> ''patient'' then access_denied
         else abort (Render_view_history
                (filter (\<lambda>a. patient_id a = user_id cu) (appointments s))
                (prescriptions s)))"

subsection \<open>Doctor routes\<close>

text \<open>
  An assignment to a column of a fetched row writes that row: the first row the query
  finds, the others untouched.
\<close>

fun update_first :: "('a \<Rightarrow> bool) \<Rightarrow> ('a \<Rightarrow> 'a) \<Rightarrow> 'a list \<Rightarrow> 'a list" where
  "update_first P f [] = []"
| "update_first P f (x # xs) = (if P x then f x # xs else x # update_first P f xs)"

definition set_status :: "int \<Rightarrow> string \<Rightarrow> state \<Rightarrow> state" where
  "set_status i st s =
     s\<lparr>appointments := update_first (\<lambda>a. appt_id a = i) (\<lambda>a. a\<lparr>status := st\<rparr>) (appointments s)\<rparr>"

definition update_appointment :: "int option \<Rightarrow> nat \<Rightarrow> string \<Rightarrow> state \<Rightarrow> response \<times> state" where
  "update_appointment sess i action s =
     (case current_user s sess of
        None \<Rightarrow> (unauthorized, s)
      | Some cu \<Rightarrow>
         (case get_or_404 s i of
            Inl failure \<Rightarrow> (abort failure, s)
          | Inr a \<Rightarrow>
             if role cu \<noteq> ''doctor'' \<or> doctor_id a \<noteq> Integer (user_id cu)
             then (access_denied, s)
             else
               (redirect ''doctor_dashboard'',
                if action = ''accept'' then set_status (appt_id a) ''accepted'' s
                else if action = ''reject'' then set_status (appt_id a) ''rejected'' s
                else s)))"

text \<open>Decimal digits of the appointment id, as the f-string writes them.\<close>

fun str_nat :: "nat \<Rightarrow> string" where
  "str_nat n = (if n < 10 then [char_of (48 + n)]
                else str_nat (n div 10) @ [char_of (48 + n mod 10)])"

declare str_nat.simps [simp del]

definition UPLOAD_FOLDER :: string where
  "UPLOAD_FOLDER = ''static/uploads''"

text \<open>
  \<open>request.files['file']\<close> fails with a bad request when the part is missing
  (\<open>None\<close>); a part is true when its file name is not empty. The path is built from
  the file name as the client sent it, and whether a file can be written there is up to
  the file system, a parameter here: \<open>writable path\<close>. Where it can, saving writes the
  content at the path, over whatever was there; where it cannot, \<open>file.save\<close> raises
  before the prescription row is added and the request ends with a server error.
\<close>

definition upload_prescription ::
    "(string \<Rightarrow> bool) \<Rightarrow> int option \<Rightarrow> nat \<Rightarrow> http_method \<Rightarrow> file_storage option \<Rightarrow> state
      \<Rightarrow> response \<times> state" where
  "upload_prescription writable sess i m file_part s =
     (case current_user s sess of
        None \<Rightarrow> (unauthorized, s)
      | Some cu \<Rightarrow>
         (case get_or_404 s i of
            Inl failure \<Rightarrow> (abort failure, s)
          | Inr a \<Rightarrow>
             if role cu \<noteq> ''doctor'' \<or> doctor_id a \<noteq> Integer (user_id cu)
             then (access_denied, s)
             else if m = POST then
               (case file_part of
                  None \<Rightarrow> (abort Bad_request, s)
                | Some file \<Rightarrow>
                   if filename file \<noteq> [] then
                     (let name = str_nat i @ ''_'' @ filename file;
                          filepath = UPLOAD_FOLDER @ ''/'' @ name
                      in if writable filepath then
                           (flash ''Prescription uploaded!'' ''success''
                              (redirect ''doctor_dashboard''),
                            s\<lparr>prescriptions := prescriptions s @
                                 [\<lparr>presc_id = next_id (map presc_id (prescriptions s)),
                                   appointment_id = appt_id a, file_url = name\<rparr>],
                              uploads := (uploads s)(filepath \<mapsto> content file)\<rparr>)
                         else (abort Server_error, s))
                   else (abort (Render_upload_prescription a), s))
             else (abort (Render_upload_prescription a), s)))"

subsection \<open>A small clinic\<close>

text \<open>
  Concrete data on which the theorems below are run: an admin, two doctors, two
  patients, one pending appointment of alice with the first doctor and one accepted
  appointment of bob with the second, which has a prescription.
\<close>

definition clinic :: state where
  "clinic =
     \<lparr>users =
        [\<lparr>user_id = 1, username = ''admin'', password = ''s0$admin123'', role = ''admin''\<rparr>,
         \<lparr>user_id = 2, username = ''house'', password = ''s1$vicodin'', role = ''doctor''\<rparr>,
         \<lparr>user_id = 3, username = ''wilson'', password = ''s2$oncology'', role = ''doctor''\<rparr>,
         \<lparr>user_id = 4, username = ''alice'', password = ''s3$wonder'', role = ''patient''\<rparr>,
         \<lparr>user_id = 5, username = ''bob'', password = ''s4$builder'', role = ''patient''\<rparr>],
      appointments =
        [\<lparr>appt_id = 1, patient_id = 4, doctor_id = Integer 2, time = ''2024-01-01 10:00'',
          status = ''pending''\<rparr>,
         \<lparr>appt_id = 2, patient_id = 5, doctor_id = Integer 3, time = ''2024-01-02 09:30'',
          status = ''accepted''\<rparr>],
      prescriptions = [\<lparr>presc_id = 1, appointment_id = 2, file_url = ''2_scan.pdf''\<rparr>],
      uploads = [''static/uploads/2_scan.pdf'' \<mapsto> ''%PDF'']\<rparr>"

definition empty_db :: state where
  "empty_db = \<lparr>users = [], appointments = [], prescriptions = [], uploads = Map.empty\<rparr>"

text \<open>
  Stand-ins for the file system and the hashing library on concrete data. The upload
  folder is a directory of plain files: a path can be written when it is a file name of
  at most 255 bytes directly under the folder, without a slash or a NUL byte. A hash is
  the salt, a dollar sign and the password, and a password checks against a hash that
  ends with it. Where a closed run needs the storage engine's treatment of a text that
  is no integer literal, it is \<open>Text\<close>: the text is kept as it is.
\<close>

definition flat_folder :: "string \<Rightarrow> bool" where
  "flat_folder path \<longleftrightarrow>
     take 15 path = ''static/uploads/'' \<and>
     (let name = drop 15 path
      in name \<noteq> [] \<and> CHR ''/'' \<notin> set name \<and> CHR 0x00 \<notin> set name \<and> length name \<le> 255)"

definition toy_security :: security where
  "toy_security =
     \<lparr>generate_password_hash = (\<lambda>salt pw. salt @ ''$'' @ pw),
      check_password_hash = (\<lambda>h pw. drop (length h - length pw) h = pw)\<rparr>"

section \<open>Properties\<close>

subsection \<open>Keys, lookups and row updates\<close>

lemma fold_max_ge: "(k::int) \<le> fold max ks k"
proof (induction ks arbitrary: k)
  case Nil
  show ?case by simp
next
  case (Cons x xs)
  have "k \<le> max x k" by simp
  also have "\<dots> \<le> fold max xs (max x k)" by (rule Cons.IH)
  finally show ?case by simp
qed

lemma fold_max_ge_elem: "x \<in> set ks \<Longrightarrow> (x::int) \<le> fold max ks k"
proof (induction ks arbitrary: k)
  case Nil
  then show ?case by simp
next
  case (Cons y ys)
  show ?case
  proof (cases "x = y")
    case True
    have "x \<le> max y k" using True by simp
    also have "\<dots> \<le> fold max ys (max y k)" by (rule fold_max_ge)
    finally show ?thesis by simp
  next
    case False
    with Cons.prems have "x \<in> set ys" by simp
    then show ?thesis using Cons.IH by simp
  qed
qed

text \<open>A new key is above every key of the table, hence not one of them.\<close>

lemma next_id_greater: "k \<in> set ks \<Longrightarrow> k < next_id ks"
proof (cases ks)
  case Nil
  assume "k \<in> set ks"
  with Nil show ?thesis by simp
next
  case (Cons x xs)
  assume "k \<in> set ks"
  then have "k = x \<or> k \<in> set xs" using Cons by simp
  then have "k \<le> fold max xs x"
    using fold_max_ge [of x xs] fold_max_ge_elem [of k xs x] by blast
  then show ?thesis using Cons by (simp add: next_id_def)
qed

lemma next_id_fresh: "next_id ks \<notin> set ks"
  using next_id_greater [of "next_id ks" ks] by blast

lemma find_append_fresh:
  "\<forall>x \<in> set xs. \<not> P x \<Longrightarrow> P y \<Longrightarrow> find P (xs @ [y]) = Some y"
  by (induction xs) auto

lemma find_Some_holds: "find P xs = Some a \<Longrightarrow> P a \<and> a \<in> set xs"
  by (induction xs) (auto split: if_splits)

text \<open>Writing the fetched row leaves every other row as it was.\<close>

lemma update_first_rel:
  "find P xs = Some a \<Longrightarrow>
   list_all2 (\<lambda>x x'. x' = x \<or> (x = a \<and> x' = f a)) xs (update_first P f xs)"
proof (induction xs)
  case Nil
  then show ?case by simp
next
  case (Cons x xs)
  show ?case
  proof (cases "P x")
    case True
    with Cons.prems have "x = a" by simp
    with True show ?thesis by (simp add: list_all2_refl)
  next
    case False
    with Cons.prems have "find P xs = Some a" by simp
    with Cons.IH False show ?thesis by simp
  qed
qed

text \<open>The written row is the one a later lookup finds.\<close>

lemma find_update_first:
  "find P xs = Some a \<Longrightarrow> P (f a) \<Longrightarrow> find P (update_first P f xs) = Some (f a)"
proof (induction xs)
  case Nil
  then show ?case by simp
next
  case (Cons x xs)
  show ?case
  proof (cases "P x")
    case True
    with Cons.prems show ?thesis by simp
  next
    case False
    with Cons.prems Cons.IH show ?thesis by simp
  qed
qed

lemma get_or_404_found: "get_appointment s (int i) = Some a \<Longrightarrow> get_or_404 s i = Inr a"
  by (simp add: get_or_404_def)

lemma get_or_404_missing:
  "get_appointment s (int i) = None \<Longrightarrow>
   get_or_404 s i = (if 2 ^ 63 \<le> int i then Inl Server_error else Inl Not_found)"
  by (simp add: get_or_404_def)

subsection \<open>Concrete callers and rows of the clinic\<close>

lemma clinic_house: "current_user clinic (Some 2) =
    Some \<lparr>user_id = 2, username = ''house'', password = ''s1$vicodin'', role = ''doctor''\<rparr>"
  by (simp add: current_user_def load_user_def clinic_def)

lemma clinic_wilson: "current_user clinic (Some 3) =
    Some \<lparr>user_id = 3, username = ''wilson'', password = ''s2$oncology'', role = ''doctor''\<rparr>"
  by (simp add: current_user_def load_user_def clinic_def)

lemma clinic_alice: "current_user clinic (Some 4) =
    Some \<lparr>user_id = 4, username = ''alice'', password = ''s3$wonder'', role = ''patient''\<rparr>"
  by (simp add: current_user_def load_user_def clinic_def)

lemma clinic_appt1: "get_appointment clinic (int 1) =
    Some \<lparr>appt_id = 1, patient_id = 4, doctor_id = Integer 2, time = ''2024-01-01 10:00'',
          status = ''pending''\<rparr>"
  by (simp add: get_appointment_def clinic_def)

lemma clinic_appt2: "get_appointment clinic (int 2) =
    Some \<lparr>appt_id = 2, patient_id = 5, doctor_id = Integer 3, time = ''2024-01-02 09:30'',
          status = ''accepted''\<rparr>"
  by (simp add: get_appointment_def clinic_def)

lemma clinic_no_appt7: "get_appointment clinic (int 7) = None"
  by (simp add: get_appointment_def clinic_def)

lemma clinic_no_appt_big: "get_appointment clinic (int 9223372036854775808) = None"
  by (simp add: get_appointment_def clinic_def)

lemma str_nat_Suc_0: "str_nat (Suc 0) = ''1''"
  by code_simp

lemma int_literal_2: "int_literal ''2'' = Some 2"
  by (simp add: int_literal_def unsigned_literal_def is_digit_def decimal_def)

lemma int_literal_3: "int_literal ''3'' = Some 3"
  by (simp add: int_literal_def unsigned_literal_def is_digit_def decimal_def)

lemma int_literal_big: "int_literal ''9223372036854775809'' = Some 9223372036854775809"
  by (simp add: int_literal_def unsigned_literal_def is_digit_def decimal_def)

subsection \<open>Doctor routes: denial and ignored actions\<close>

text \<open>
  C3. An authenticated caller who is not a doctor, or not the doctor the appointment
  names, is denied by \<open>update_appointment\<close> and by \<open>upload_prescription\<close>: both answer
  with the redirect to the index page and leave the whole state as it was, so no status
  changes, no prescription row is added and no file is stored.
\<close>

theorem non_owner_denied:
  assumes "current_user s sess = Some cu"
    and "get_appointment s (int i) = Some a"
    and "role cu \<noteq> ''doctor'' \<or> doctor_id a \<noteq> Integer (user_id cu)"
  shows "update_appointment sess i action s = (access_denied, s) \<and>
         upload_prescription writable sess i m file_part s = (access_denied, s) \<and>
         page access_denied = Redirect ''index''"
  using assms
  by (auto simp: update_appointment_def upload_prescription_def get_or_404_found
      access_denied_def flash_def redirect_def)

theorem non_owner_denied_witness:
  "update_appointment (Some 3) 1 ''accept'' clinic = (access_denied, clinic) \<and>
   upload_prescription flat_folder (Some 3) 1 POST
       (Some \<lparr>filename = ''x.pdf'', content = ''abc''\<rparr>) clinic
     = (access_denied, clinic) \<and>
   update_appointment (Some 4) 1 ''reject'' clinic = (access_denied, clinic) \<and>
   page access_denied = Redirect ''index''"
  using non_owner_denied [OF clinic_wilson clinic_appt1, of "''accept''" flat_folder POST
      "Some \<lparr>filename = ''x.pdf'', content = ''abc''\<rparr>"]
    non_owner_denied [OF clinic_alice clinic_appt1, of "''reject''" flat_folder GET None]
  by simp

text \<open>
  C8. For an appointment of the calling doctor and an action that is neither
  \<open>accept\<close> nor \<open>reject\<close>, \<open>update_appointment\<close> changes nothing in the state and
  answers with the redirect to the doctor dashboard.
\<close>

theorem unknown_action_ignored:
  assumes "current_user s sess = Some cu"
    and "get_appointment s (int i) = Some a"
    and "role cu = ''doctor''" and "doctor_id a = Integer (user_id cu)"
    and "action \<noteq> ''accept''" and "action \<noteq> ''reject''"
  shows "update_appointment sess i action s = (redirect ''doctor_dashboard'', s)"
  using assms by (simp add: update_appointment_def get_or_404_found)

theorem unknown_action_ignored_witness:
  "update_appointment (Some 2) 1 ''cancel'' clinic = (redirect ''doctor_dashboard'', clinic)"
  using unknown_action_ignored [OF clinic_house clinic_appt1, of "''cancel''"] by simp

subsection \<open>Doctor routes: an id that names no appointment\<close>

text \<open>
  C9, as amended. For an authenticated caller and an appointment id below \<open>2 ^ 63\<close>
  that no row of the table has, \<open>update_appointment\<close> and \<open>upload_prescription\<close>
  answer with the not-found failure and leave the state as it was. For an id from
  \<open>2 ^ 63\<close> on, which no row has either, both fail with a server error, and the state
  is as it was too.
\<close>

theorem unknown_id_not_found:
  assumes "current_user s sess = Some cu" and "get_appointment s (int i) = None"
  shows "(int i < 2 ^ 63 \<longrightarrow>
            update_appointment sess i action s = (abort Not_found, s) \<and>
            upload_prescription writable sess i m file_part s = (abort Not_found, s)) \<and>
         (2 ^ 63 \<le> int i \<longrightarrow>
            update_appointment sess i action s = (abort Server_error, s) \<and>
            upload_prescription writable sess i m file_part s = (abort Server_error, s))"
  using assms
  by (simp add: update_appointment_def upload_prescription_def get_or_404_missing)

theorem unknown_id_not_found_witness:
  "update_appointment (Some 2) 7 ''accept'' clinic = (abort Not_found, clinic) \<and>
   upload_prescription flat_folder (Some 2) 7 POST
       (Some \<lparr>filename = ''x.pdf'', content = ''abc''\<rparr>) clinic
     = (abort Not_found, clinic) \<and>
   update_appointment (Some 2) 9223372036854775808 ''accept'' clinic
     = (abort Server_error, clinic) \<and>
   upload_prescription flat_folder (Some 2) 9223372036854775808 GET None clinic
     = (abort Server_error, clinic)"
  using unknown_id_not_found [OF clinic_house clinic_no_appt7, of "''accept''" flat_folder POST
      "Some \<lparr>filename = ''x.pdf'', content = ''abc''\<rparr>"]
    unknown_id_not_found [OF clinic_house clinic_no_appt_big, of "''accept''" flat_folder GET None]
  by simp

text \<open>
  C9 as stated covers every request and every id. A request without a session never
  reaches the lookup: \<open>login_required\<close> sends it to the login page, whatever the id.
  And the id \<open>2 ^ 63\<close>, which no row has, gets the owning doctor a server error, not
  the not-found failure.
\<close>

theorem anonymous_unknown_id_redirected:
  "get_appointment clinic (int 7) = None \<and>
   update_appointment None 7 ''accept'' clinic = (unauthorized, clinic) \<and>
   upload_prescription flat_folder None 7 GET None clinic = (unauthorized, clinic) \<and>
   page unauthorized = Redirect ''login'' \<and>
   get_appointment clinic (int 9223372036854775808) = None \<and>
   page (fst (update_appointment (Some 2) 9223372036854775808 ''accept'' clinic))
     = Server_error"
  by (simp add: get_appointment_def get_or_404_def update_appointment_def
      upload_prescription_def current_user_def load_user_def unauthorized_def flash_def
      redirect_def abort_def clinic_def)

subsection \<open>The status of an appointment\<close>

text \<open>
  C1, as amended. When the caller is a doctor and the doctor that the appointment with
  the requested id names, \<open>update_appointment\<close> with the action \<open>accept\<close> leaves
  that appointment with the status \<open>accepted\<close>, and with the action \<open>reject\<close> with
  the status \<open>rejected\<close>, whatever its status was before: no status is terminal. The
  route leaves users, prescriptions and files alone, and row by row the appointment
  table after the request is the table before it, except for the row it fetched, and
  that row differs only when the caller is its doctor and the action is one of the two.
\<close>

theorem status_written_by_owner_only:
  "(\<forall>cu a. current_user s sess = Some cu \<and> get_appointment s (int i) = Some a \<and>
       role cu = ''doctor'' \<and> doctor_id a = Integer (user_id cu) \<longrightarrow>
       (action = ''accept'' \<longrightarrow>
          get_appointment (snd (update_appointment sess i action s)) (int i)
            = Some (a\<lparr>status := ''accepted''\<rparr>)) \<and>
       (action = ''reject'' \<longrightarrow>
          get_appointment (snd (update_appointment sess i action s)) (int i)
            = Some (a\<lparr>status := ''rejected''\<rparr>))) \<and>
   users (snd (update_appointment sess i action s)) = users s \<and>
   prescriptions (snd (update_appointment sess i action s)) = prescriptions s \<and>
   uploads (snd (update_appointment sess i action s)) = uploads s \<and>
   list_all2
     (\<lambda>a a'. a' = a \<or>
        (\<exists>cu. current_user s sess = Some cu \<and> role cu = ''doctor'' \<and>
              get_appointment s (int i) = Some a \<and> doctor_id a = Integer (user_id cu) \<and>
              (action = ''accept'' \<and> a' = a\<lparr>status := ''accepted''\<rparr> \<or>
               action = ''reject'' \<and> a' = a\<lparr>status := ''rejected''\<rparr>)))
     (appointments s) (appointments (snd (update_appointment sess i action s)))"
proof (cases "current_user s sess")
  case None
  then show ?thesis by (simp add: update_appointment_def list_all2_refl)
next
  case (Some cu)
  show ?thesis
  proof (cases "get_appointment s (int i)")
    case None
    with Some show ?thesis
      by (simp add: update_appointment_def get_or_404_missing list_all2_refl)
  next
    case found: (Some a0)
    then have key: "appt_id a0 = int i"
      using find_Some_holds [of "\<lambda>a. appt_id a = int i" "appointments s" a0]
      by (simp add: get_appointment_def)
    note fetch = get_or_404_found [OF found]
    show ?thesis
    proof (cases "role cu \<noteq> ''doctor'' \<or> doctor_id a0 \<noteq> Integer (user_id cu)")
      case True
      with Some found fetch show ?thesis
        by (auto simp: update_appointment_def list_all2_refl)
    next
      case owner: False
      have rel: "list_all2 (\<lambda>x x'. x' = x \<or> (x = a0 \<and> x' = a0\<lparr>status := st\<rparr>))
          (appointments s)
          (update_first (\<lambda>a. appt_id a = int i) (\<lambda>a. a\<lparr>status := st\<rparr>) (appointments s))" for st
        using found update_first_rel [of "\<lambda>a. appt_id a = int i" "appointments s" a0]
        by (simp add: get_appointment_def)
      have written: "find (\<lambda>a. appt_id a = int i)
          (update_first (\<lambda>a. appt_id a = int i) (\<lambda>a. a\<lparr>status := st\<rparr>) (appointments s))
          = Some (a0\<lparr>status := st\<rparr>)" for st
        using found key
          find_update_first [of "\<lambda>a. appt_id a = int i" "appointments s" a0
            "\<lambda>a. a\<lparr>status := st\<rparr>"]
        by (simp add: get_appointment_def)
      show ?thesis
      proof (cases "action = ''accept''")
        case True
        with Some found fetch owner key show ?thesis
          using rel [of "''accepted''"] written [of "''accepted''"]
          by (auto simp: update_appointment_def set_status_def get_appointment_def
              elim!: list_all2_mono)
      next
        case nacc: False
        show ?thesis
        proof (cases "action = ''reject''")
          case True
          with Some found fetch owner key nacc show ?thesis
            using rel [of "''rejected''"] written [of "''rejected''"]
            by (auto simp: update_appointment_def set_status_def get_appointment_def
                elim!: list_all2_mono)
        next
          case False
          with Some found fetch owner nacc show ?thesis
            by (simp add: update_appointment_def list_all2_refl)
        qed
      qed
    qed
  qed
qed

text \<open>
  In the clinic the second doctor rejects the second appointment, which was accepted:
  it is rejected afterwards.
\<close>

theorem status_written_by_owner_only_witness:
  "get_appointment (snd (update_appointment (Some 3) 2 ''reject'' clinic)) (int 2) =
     Some \<lparr>appt_id = 2, patient_id = 5, doctor_id = Integer 3, time = ''2024-01-02 09:30'',
          status = ''rejected''\<rparr>"
proof -
  have doc: "role \<lparr>user_id = 3, username = ''wilson'', password = ''s2$oncology'',
      role = ''doctor''\<rparr> = ''doctor''"
    by simp
  have own: "doctor_id \<lparr>appt_id = 2, patient_id = 5, doctor_id = Integer 3,
        time = ''2024-01-02 09:30'', status = ''accepted''\<rparr> =
      Integer (user_id \<lparr>user_id = 3, username = ''wilson'', password = ''s2$oncology'',
        role = ''doctor''\<rparr>)"
    by simp
  note all = status_written_by_owner_only [of clinic "Some 3" 2 "''reject''", THEN conjunct1]
  from all clinic_wilson clinic_appt2 doc own
  have "get_appointment (snd (update_appointment (Some 3) 2 ''reject'' clinic)) (int 2) =
     Some (\<lparr>appt_id = 2, patient_id = 5, doctor_id = Integer 3, time = ''2024-01-02 09:30'',
          status = ''accepted''\<rparr>\<lparr>status := ''rejected''\<rparr>)"
    by blast
  then show ?thesis by simp
qed

text \<open>
  C1 as stated makes \<open>accepted\<close> and \<open>rejected\<close> terminal. The route does not read
  the current status: the doctor of the first appointment accepts it, then rejects it,
  then accepts it again, and the status follows every time.
\<close>

theorem accepted_not_terminal:
  "map status (appointments clinic) = [''pending'', ''accepted''] \<and>
   map status (appointments (snd (update_appointment (Some 2) 1 ''accept'' clinic)))
     = [''accepted'', ''accepted''] \<and>
   map status (appointments (snd (update_appointment (Some 2) 1 ''reject''
       (snd (update_appointment (Some 2) 1 ''accept'' clinic)))))
     = [''rejected'', ''accepted''] \<and>
   map status (appointments (snd (update_appointment (Some 2) 1 ''accept''
       (snd (update_appointment (Some 2) 1 ''reject''
         (snd (update_appointment (Some 2) 1 ''accept'' clinic)))))))
     = [''accepted'', ''accepted'']"
  by (simp add: update_appointment_def get_or_404_def current_user_def load_user_def
      get_appointment_def set_status_def clinic_def)

subsection \<open>Patient routes\<close>

text \<open>
  C5, as amended. For an authenticated caller, a booking request that carries both form
  fields, doctor id \<open>D\<close> and time \<open>T\<close>, appends one appointment row with a key no
  row had, the caller's id as patient, \<open>T\<close> as time, the status \<open>pending\<close>, and as
  doctor id what the integer column keeps for the text \<open>D\<close>: the integer \<open>n\<close> when
  \<open>D\<close> is a decimal integer literal for \<open>n\<close> within the 64-bit range, and a
  floating-point number, not an integer, when the literal is out of that range. The
  earlier appointment rows and the other tables are unchanged.
\<close>

theorem booking_creates_pending_row:
  assumes "current_user s sess = Some cu"
  shows "book_appointment other sess \<lparr>form_doctor_id = Some D, form_time = Some T\<rparr> s =
           (flash ''Appointment booked!'' ''success'' (redirect ''patient_dashboard''),
            s\<lparr>appointments := appointments s @
               [\<lparr>appt_id = next_id (map appt_id (appointments s)), patient_id = user_id cu,
                 doctor_id = integer_affinity other D, time = T, status = ''pending''\<rparr>]\<rparr>) \<and>
         next_id (map appt_id (appointments s)) \<notin> appt_id ` set (appointments s) \<and>
         (\<forall>n. int_literal D = Some n \<and> - (2 ^ 63) \<le> n \<and> n < 2 ^ 63 \<longrightarrow>
              integer_affinity other D = Integer n) \<and>
         (\<forall>n. int_literal D = Some n \<and> (n < - (2 ^ 63) \<or> 2 ^ 63 \<le> n) \<longrightarrow>
              integer_affinity other D = Real_of D)"
proof -
  have "next_id (map appt_id (appointments s)) \<notin> appt_id ` set (appointments s)"
    using next_id_fresh [of "map appt_id (appointments s)"] by simp
  with assms show ?thesis
    by (auto simp: book_appointment_def integer_affinity_def)
qed

theorem booking_creates_pending_row_witness:
  "book_appointment Text (Some 4)
       \<lparr>form_doctor_id = Some ''2'', form_time = Some ''2024-01-01 10:00''\<rparr> clinic =
     (flash ''Appointment booked!'' ''success'' (redirect ''patient_dashboard''),
      clinic\<lparr>appointments := appointments clinic @
         [\<lparr>appt_id = 3, patient_id = 4, doctor_id = Integer 2, time = ''2024-01-01 10:00'',
           status = ''pending''\<rparr>]\<rparr>) \<and>
   (3::int) \<notin> appt_id ` set (appointments clinic)"
proof -
  have k: "next_id (map appt_id (appointments clinic)) = 3"
    by (simp add: next_id_def clinic_def)
  note run = booking_creates_pending_row [OF clinic_alice, of Text "''2''" "''2024-01-01 10:00''"]
  from run int_literal_2 have d: "integer_affinity Text ''2'' = Integer 2"
    by simp
  from run k d show ?thesis by simp
qed

text \<open>
  C5 as stated stores the doctor id \<open>D\<close> of the form. For the field
  \<open>9223372036854775809\<close>, an integer literal above the 64-bit range, the row does not
  hold that integer: the column keeps a floating-point number.
\<close>

theorem booking_out_of_range_doctor_id:
  "int_literal ''9223372036854775809'' = Some 9223372036854775809 \<and>
   map doctor_id (appointments (snd (book_appointment Text (Some 4)
       \<lparr>form_doctor_id = Some ''9223372036854775809'', form_time = Some ''2024-01-01 10:00''\<rparr>
       clinic)))
     = [Integer 2, Integer 3, Real_of ''9223372036854775809''] \<and>
   Real_of ''9223372036854775809'' \<noteq> Integer 9223372036854775809"
  by (simp add: int_literal_big book_appointment_def integer_affinity_def current_user_def
      load_user_def clinic_def)

text \<open>
  C2. Booking is meant for patients only, but the route checks no role: in the clinic
  the doctor with id 2 books an appointment, which is stored with the doctor as the
  patient, and is sent to the patient dashboard.
\<close>

theorem doctor_books_appointment:
  "current_user clinic (Some 2) =
     Some \<lparr>user_id = 2, username = ''house'', password = ''s1$vicodin'', role = ''doctor''\<rparr> \<and>
   book_appointment Text (Some 2)
       \<lparr>form_doctor_id = Some ''3'', form_time = Some ''2024-02-01 08:00''\<rparr> clinic =
     (flash ''Appointment booked!'' ''success'' (redirect ''patient_dashboard''),
      clinic\<lparr>appointments := appointments clinic @
        [\<lparr>appt_id = 3, patient_id = 2, doctor_id = Integer 3, time = ''2024-02-01 08:00'',
          status = ''pending''\<rparr>]\<rparr>)"
  by (simp add: book_appointment_def integer_affinity_def int_literal_3 current_user_def
      load_user_def clinic_def next_id_def)

text \<open>
  C4. For an authenticated patient, \<open>view_history\<close> renders the appointments whose
  \<open>patient_id\<close> is the caller's id, in table order, together with every row of the
  prescription table.
\<close>

theorem view_history_lists:
  assumes "current_user s sess = Some cu" and "role cu = ''patient''"
  shows "view_history sess s =
     \<lparr>page = Render_view_history (filter (\<lambda>a. patient_id a = user_id cu) (appointments s))
              (prescriptions s),
      flashed = []\<rparr>"
  using assms by (simp add: view_history_def abort_def)

text \<open>
  In the clinic alice sees her one appointment and the prescription that belongs to
  bob's appointment.
\<close>

theorem view_history_lists_witness:
  "view_history (Some 4) clinic =
     \<lparr>page = Render_view_history
        [\<lparr>appt_id = 1, patient_id = 4, doctor_id = Integer 2, time = ''2024-01-01 10:00'',
          status = ''pending''\<rparr>]
        [\<lparr>presc_id = 1, appointment_id = 2, file_url = ''2_scan.pdf''\<rparr>],
      flashed = []\<rparr>"
  using view_history_lists [OF clinic_alice] by (simp add: clinic_def)

subsection \<open>Start-up, registration and login\<close>

text \<open>
  C6. Seeding a state with an empty user table leaves exactly one user, named
  \<open>admin\<close> with the role \<open>admin\<close>; seeding a state that has a user with the role
  \<open>admin\<close> changes nothing; and seeding the result of a seeding that went through
  changes nothing, whatever the salts.
\<close>

theorem seed_idempotent:
  "(users s = [] \<longrightarrow>
      seed W salt s =
        Inr (s\<lparr>users := [\<lparr>user_id = 1, username = ''admin'',
                            password = generate_password_hash W salt ''admin123'',
                            role = ''admin''\<rparr>]\<rparr>)) \<and>
   ((\<exists>u \<in> set (users s). role u = ''admin'') \<longrightarrow> seed W salt s = Inr s) \<and>
   (\<forall>s1. seed W salt s = Inr s1 \<longrightarrow> seed W salt' s1 = Inr s1)"
proof (intro conjI impI allI)
  assume "users s = []"
  then show "seed W salt s =
        Inr (s\<lparr>users := [\<lparr>user_id = 1, username = ''admin'',
                            password = generate_password_hash W salt ''admin123'',
                            role = ''admin''\<rparr>]\<rparr>)"
    by (simp add: seed_def add_user_def next_id_def)
next
  assume "\<exists>u \<in> set (users s). role u = ''admin''"
  then have "find (\<lambda>u. role u = ''admin'') (users s) \<noteq> None"
    by (auto simp: find_None_iff)
  then show "seed W salt s = Inr s"
    by (auto simp: seed_def)
next
  fix s1
  assume run: "seed W salt s = Inr s1"
  have "find (\<lambda>u. role u = ''admin'') (users s1) \<noteq> None"
  proof (cases "find (\<lambda>u. role u = ''admin'') (users s)")
    case None
    with run have "\<exists>a. users s1 = users s @ [a] \<and> role a = ''admin''"
      by (auto simp: seed_def add_user_def split: if_splits)
    then show ?thesis by (auto simp: find_None_iff)
  next
    case (Some a)
    with run show ?thesis by (simp add: seed_def)
  qed
  then show "seed W salt' s1 = Inr s1"
    by (auto simp: seed_def)
qed

theorem seed_idempotent_witness:
  "seed toy_security ''s0'' empty_db =
     Inr (empty_db\<lparr>users := [\<lparr>user_id = 1, username = ''admin'', password = ''s0$admin123'',
                              role = ''admin''\<rparr>]\<rparr>) \<and>
   seed toy_security ''zz''
     (empty_db\<lparr>users := [\<lparr>user_id = 1, username = ''admin'', password = ''s0$admin123'',
                              role = ''admin''\<rparr>]\<rparr>) =
     Inr (empty_db\<lparr>users := [\<lparr>user_id = 1, username = ''admin'', password = ''s0$admin123'',
                              role = ''admin''\<rparr>]\<rparr>) \<and>
   seed toy_security ''zz'' clinic = Inr clinic"
proof -
  have e: "users empty_db = []" by (simp add: empty_db_def)
  have c: "\<exists>u \<in> set (users clinic). role u = ''admin''" by (simp add: clinic_def)
  have g: "generate_password_hash toy_security ''s0'' ''admin123'' = ''s0$admin123''"
    by (simp add: toy_security_def)
  from seed_idempotent [of empty_db toy_security "''s0''" "''zz''"] e g
  have first: "seed toy_security ''s0'' empty_db =
     Inr (empty_db\<lparr>users := [\<lparr>user_id = 1, username = ''admin'', password = ''s0$admin123'',
                              role = ''admin''\<rparr>]\<rparr>)"
    and again: "\<forall>s1. seed toy_security ''s0'' empty_db = Inr s1 \<longrightarrow> seed toy_security ''zz'' s1 = Inr s1"
    by simp_all
  from seed_idempotent [of clinic toy_security "''zz''" "''zz''"] c
  have third: "seed toy_security ''zz'' clinic = Inr clinic" by blast
  from first again third show ?thesis by simp
qed

text \<open>
  C7. When no stored user has the name \<open>U\<close>, and the hashing library accepts the
  password \<open>P\<close> against the hash it generated from \<open>P\<close>, registering \<open>(U, P)\<close>
  appends a user row with the role \<open>patient\<close> and the generated hash as password and
  redirects to the login page; a login with \<open>(U, P)\<close> on the resulting state then
  redirects to the patient dashboard with the session bound to the new user's id, and
  that session resolves to the new row.
\<close>

theorem register_then_login:
  assumes "\<forall>u \<in> set (users s). username u \<noteq> U"
    and "check_password_hash W (generate_password_hash W salt P) P"
  shows "register W salt POST \<lparr>form_username = Some U, form_password = Some P\<rparr> s =
           (flash ''Patient registered successfully!'' ''success'' (redirect ''login''),
            s\<lparr>users := users s @
               [\<lparr>user_id = next_id (map user_id (users s)), username = U,
                 password = generate_password_hash W salt P, role = ''patient''\<rparr>]\<rparr>) \<and>
         login W POST \<lparr>form_username = Some U, form_password = Some P\<rparr> sess
            (snd (register W salt POST \<lparr>form_username = Some U, form_password = Some P\<rparr> s)) =
           (redirect ''patient_dashboard'', Some (next_id (map user_id (users s)))) \<and>
         current_user
            (snd (register W salt POST \<lparr>form_username = Some U, form_password = Some P\<rparr> s))
            (Some (next_id (map user_id (users s)))) =
           Some \<lparr>user_id = next_id (map user_id (users s)), username = U,
                 password = generate_password_hash W salt P, role = ''patient''\<rparr>"
proof -
  let ?new = "\<lparr>user_id = next_id (map user_id (users s)), username = U,
                 password = generate_password_hash W salt P, role = ''patient''\<rparr>"
  let ?form = "\<lparr>form_username = Some U, form_password = Some P\<rparr>"
  have add: "add_user U (generate_password_hash W salt P) ''patient'' s =
      Inr (s\<lparr>users := users s @ [?new]\<rparr>)"
    using assms(1) by (auto simp: add_user_def)
  have reg: "register W salt POST ?form s =
      (flash ''Patient registered successfully!'' ''success'' (redirect ''login''),
       s\<lparr>users := users s @ [?new]\<rparr>)"
    by (simp add: register_def add)
  have by_name: "find (\<lambda>u. username u = U) (users s @ [?new]) = Some ?new"
    using assms(1) by (intro find_append_fresh) simp_all
  have "user_id u \<noteq> next_id (map user_id (users s))" if "u \<in> set (users s)" for u
    using that next_id_greater [of "user_id u" "map user_id (users s)"] by simp
  then have "\<forall>u \<in> set (users s). user_id u \<noteq> next_id (map user_id (users s))"
    by blast
  then have by_id: "find (\<lambda>u. user_id u = next_id (map user_id (users s))) (users s @ [?new])
      = Some ?new"
    by (intro find_append_fresh) simp_all
  have log: "login W POST ?form sess (s\<lparr>users := users s @ [?new]\<rparr>) =
      (redirect ''patient_dashboard'', Some (next_id (map user_id (users s))))"
    using assms(2) by (simp add: login_def by_name)
  have cur: "current_user (s\<lparr>users := users s @ [?new]\<rparr>)
      (Some (next_id (map user_id (users s)))) = Some ?new"
    by (simp add: current_user_def load_user_def by_id)
  show ?thesis using reg log cur by simp
qed

theorem register_then_login_witness:
  "register toy_security ''s5'' POST \<lparr>form_username = Some ''carol'', form_password = Some ''pw''\<rparr> clinic =
     (flash ''Patient registered successfully!'' ''success'' (redirect ''login''),
      clinic\<lparr>users := users clinic @
         [\<lparr>user_id = 6, username = ''carol'', password = ''s5$pw'', role = ''patient''\<rparr>]\<rparr>) \<and>
   login toy_security POST \<lparr>form_username = Some ''carol'', form_password = Some ''pw''\<rparr> None
     (snd (register toy_security ''s5'' POST
        \<lparr>form_username = Some ''carol'', form_password = Some ''pw''\<rparr> clinic)) =
     (redirect ''patient_dashboard'', Some 6)"
proof -
  have fresh: "\<forall>u \<in> set (users clinic). username u \<noteq> ''carol''"
    by (simp add: clinic_def)
  have chk: "check_password_hash toy_security
      (generate_password_hash toy_security ''s5'' ''pw'') ''pw''"
    by (simp add: toy_security_def)
  have k: "next_id (map user_id (users clinic)) = 6"
    by (simp add: next_id_def clinic_def)
  have g: "generate_password_hash toy_security ''s5'' ''pw'' = ''s5$pw''"
    by (simp add: toy_security_def)
  from register_then_login [OF fresh chk, of None, unfolded k g]
  show ?thesis by blast
qed

subsection \<open>Uploading a prescription\<close>

text \<open>
  C10, as amended. For an appointment of the calling doctor: a GET, and a POST whose
  file part has an empty file name, render the upload form and change nothing; a POST
  without a file part fails with a bad request and changes nothing; a POST whose file
  part has a file name that the file system cannot write under the upload folder fails
  with a server error and changes nothing; a POST whose file part has a file name that
  can be written there appends one prescription row, stores the content at that path
  and redirects to the doctor dashboard. The state changes only in that last case.
\<close>

theorem upload_cases:
  assumes "current_user s sess = Some cu"
    and "get_appointment s (int i) = Some a"
    and "role cu = ''doctor''" and "doctor_id a = Integer (user_id cu)"
  shows
    "(m = GET \<longrightarrow>
        upload_prescription writable sess i m file_part s =
          (abort (Render_upload_prescription a), s)) \<and>
     (m = POST \<and> file_part = None \<longrightarrow>
        upload_prescription writable sess i m file_part s = (abort Bad_request, s)) \<and>
     (\<forall>f. m = POST \<and> file_part = Some f \<and> filename f = [] \<longrightarrow>
        upload_prescription writable sess i m file_part s =
          (abort (Render_upload_prescription a), s)) \<and>
     (\<forall>f. m = POST \<and> file_part = Some f \<and> filename f \<noteq> [] \<and>
          \<not> writable (''static/uploads/'' @ str_nat i @ ''_'' @ filename f) \<longrightarrow>
        upload_prescription writable sess i m file_part s = (abort Server_error, s)) \<and>
     (\<forall>f. m = POST \<and> file_part = Some f \<and> filename f \<noteq> [] \<and>
          writable (''static/uploads/'' @ str_nat i @ ''_'' @ filename f) \<longrightarrow>
        upload_prescription writable sess i m file_part s =
          (flash ''Prescription uploaded!'' ''success'' (redirect ''doctor_dashboard''),
           s\<lparr>prescriptions := prescriptions s @
                [\<lparr>presc_id = next_id (map presc_id (prescriptions s)),
                  appointment_id = appt_id a, file_url = str_nat i @ ''_'' @ filename f\<rparr>],
             uploads := (uploads s)
                (''static/uploads/'' @ str_nat i @ ''_'' @ filename f \<mapsto> content f)\<rparr>)) \<and>
     (snd (upload_prescription writable sess i m file_part s) \<noteq> s \<longrightarrow>
        m = POST \<and>
        (\<exists>f. file_part = Some f \<and> filename f \<noteq> [] \<and>
             writable (''static/uploads/'' @ str_nat i @ ''_'' @ filename f)))"
  using assms
  by (cases m; cases file_part)
    (auto simp: upload_prescription_def get_or_404_found UPLOAD_FOLDER_def Let_def)

text \<open>
  In the clinic the first doctor uploads for the first appointment: a part without a
  name, a part named \<open>report.pdf\<close>, and a part named \<open>a/b.pdf\<close>, which names a
  directory that the folder does not have.
\<close>

theorem upload_cases_witness:
  "upload_prescription flat_folder (Some 2) 1 POST
       (Some \<lparr>filename = [], content = ''abc''\<rparr>) clinic =
     (abort (Render_upload_prescription
        \<lparr>appt_id = 1, patient_id = 4, doctor_id = Integer 2, time = ''2024-01-01 10:00'',
          status = ''pending''\<rparr>), clinic) \<and>
   upload_prescription flat_folder (Some 2) 1 POST
       (Some \<lparr>filename = ''report.pdf'', content = ''abc''\<rparr>) clinic =
     (flash ''Prescription uploaded!'' ''success'' (redirect ''doctor_dashboard''),
      clinic\<lparr>prescriptions := prescriptions clinic @
           [\<lparr>presc_id = 2, appointment_id = 1, file_url = ''1_report.pdf''\<rparr>],
        uploads := (uploads clinic)(''static/uploads/1_report.pdf'' \<mapsto> ''abc'')\<rparr>) \<and>
   upload_prescription flat_folder (Some 2) 1 POST
       (Some \<lparr>filename = ''a/b.pdf'', content = ''abc''\<rparr>) clinic =
     (abort Server_error, clinic)"
proof -
  have doc: "role \<lparr>user_id = 2, username = ''house'', password = ''s1$vicodin'', role = ''doctor''\<rparr>
      = ''doctor''"
    by simp
  have own: "doctor_id \<lparr>appt_id = 1, patient_id = 4, doctor_id = Integer 2,
        time = ''2024-01-01 10:00'', status = ''pending''\<rparr> =
      Integer (user_id \<lparr>user_id = 2, username = ''house'', password = ''s1$vicodin'',
        role = ''doctor''\<rparr>)"
    by simp
  have k: "next_id (map presc_id (prescriptions clinic)) = 2"
    by (simp add: next_id_def clinic_def)
  have ok: "flat_folder ''static/uploads/1_report.pdf''"
    by (simp add: flat_folder_def)
  have bad: "\<not> flat_folder ''static/uploads/1_a/b.pdf''"
    by (simp add: flat_folder_def)
  have empty_name:
    "upload_prescription flat_folder (Some 2) 1 POST
       (Some \<lparr>filename = [], content = ''abc''\<rparr>) clinic =
     (abort (Render_upload_prescription
        \<lparr>appt_id = 1, patient_id = 4, doctor_id = Integer 2, time = ''2024-01-01 10:00'',
          status = ''pending''\<rparr>), clinic)"
    using upload_cases [where writable = flat_folder and m = POST and
        file_part = "Some \<lparr>filename = [], content = ''abc''\<rparr>",
        OF clinic_house clinic_appt1 doc own]
    by simp
  have named:
    "upload_prescription flat_folder (Some 2) 1 POST
       (Some \<lparr>filename = ''report.pdf'', content = ''abc''\<rparr>) clinic =
     (flash ''Prescription uploaded!'' ''success'' (redirect ''doctor_dashboard''),
      clinic\<lparr>prescriptions := prescriptions clinic @
           [\<lparr>presc_id = 2, appointment_id = 1, file_url = ''1_report.pdf''\<rparr>],
        uploads := (uploads clinic)(''static/uploads/1_report.pdf'' \<mapsto> ''abc'')\<rparr>)"
    using upload_cases [where writable = flat_folder and m = POST and
        file_part = "Some \<lparr>filename = ''report.pdf'', content = ''abc''\<rparr>",
        OF clinic_house clinic_appt1 doc own] ok
    by (simp add: k str_nat_Suc_0)
  have slash:
    "upload_prescription flat_folder (Some 2) 1 POST
       (Some \<lparr>filename = ''a/b.pdf'', content = ''abc''\<rparr>) clinic =
     (abort Server_error, clinic)"
    using upload_cases [where writable = flat_folder and m = POST and
        file_part = "Some \<lparr>filename = ''a/b.pdf'', content = ''abc''\<rparr>",
        OF clinic_house clinic_appt1 doc own] bad
    by (simp add: str_nat_Suc_0)
  from empty_name named slash show ?thesis by simp
qed

text \<open>
  C10 as stated has the form rendered again when the file part is missing. Reading a
  missing part fails first: the owning doctor gets a bad request.
\<close>

theorem missing_file_part_bad_request:
  "current_user clinic (Some 2) =
     Some \<lparr>user_id = 2, username = ''house'', password = ''s1$vicodin'', role = ''doctor''\<rparr> \<and>
   get_appointment clinic (int 1) =
     Some \<lparr>appt_id = 1, patient_id = 4, doctor_id = Integer 2, time = ''2024-01-01 10:00'',
          status = ''pending''\<rparr> \<and>
   upload_prescription flat_folder (Some 2) 1 POST None clinic = (abort Bad_request, clinic) \<and>
   page (abort Bad_request) = Bad_request"
  by (simp add: upload_prescription_def get_or_404_def current_user_def load_user_def
      get_appointment_def clinic_def abort_def)

end
